theory Spec2Isabelle
  imports Main
begin

section \<open>The students table and the session of \<open>lib/sqlalchemy_sandbox.py\<close>\<close>

text \<open>
  The script declares one mapped class, \<open>Student\<close>, opens one session on an in-memory
  SQLite database and calls the object-relational mapper on it, top to bottom. The
  embedding follows the script: the mapped class is a record, the session is a record
  that is passed along and returned updated, every exception the calls can raise is a
  value of \<open>error\<close>, and each call of the script is one function.

  What a call of the mapper does to the table is taken from the statement it emits:
  \<open>bulk_save_objects\<close> emits INSERT, the flush of changed objects emits UPDATE by
  primary key, \<open>Query.update\<close> and \<open>Query.delete\<close> emit one UPDATE or DELETE with the
  query's WHERE clause, \<open>Session.delete\<close> followed by \<open>commit\<close> emits DELETE by primary
  key. All of them run inside the session's open transaction, on the session's one
  connection, so each is seen by every later query of the session; \<open>commit\<close> ends the
  transaction.

  The database stores an integer in 64 bits, and the model follows the code at that
  bound: a Python integer beyond it is refused as a parameter, an integer sum beyond it
  is an error in SUM and a floating-point number in an expression, and the id after the
  largest one is drawn at random.
\<close>

subsection \<open>Values\<close>

text \<open>
  \<open>datetime(year, month, day, hour, minute, second, microsecond)\<close>. The script builds
  birthdays from year, month and day (the rest is 0) and reads the clock once, with
  \<open>datetime.now()\<close>, in the body of the class.
\<close>

datatype datetime = Datetime int int int int int int int

text \<open>The integers that the database stores, and that its driver accepts as a parameter.\<close>

definition int64 :: "int \<Rightarrow> bool" where
  "int64 v = (- (2 ^ 63) \<le> v \<and> v < 2 ^ 63)"

definition bindable :: "int option \<Rightarrow> bool" where
  "bindable v = (case v of None \<Rightarrow> True | Some n \<Rightarrow> int64 n)"

text \<open>
  The floating-point number next to an integer: 53 bits are kept and the rest is rounded
  to the nearest, a tie to the even one. \<open>shift_count\<close> is the number of bits dropped.
\<close>

function shift_count :: "int \<Rightarrow> nat" where
  "shift_count m = (if m < 2 ^ 53 then 0 else Suc (shift_count (m div 2)))"
  by pat_completeness auto
termination
  by (relation "measure nat") auto

declare shift_count.simps [simp del]

definition round_double :: "int \<Rightarrow> int" where
  "round_double x =
     (let m = \<bar>x\<bar>; e = shift_count m; q = m div 2 ^ e; r = m mod 2 ^ e
      in if e = 0 then x
         else sgn x *
           ((if 2 * r < 2 ^ e \<or> (2 * r = 2 ^ e \<and> even q) then q else q + 1) * 2 ^ e))"

text \<open>
  The sum of two numbers in SQL: the integer sum while both are integers and the sum is
  one, and otherwise the floating-point sum of the two as floating-point numbers.
\<close>

definition sql_add :: "int \<Rightarrow> int \<Rightarrow> int" where
  "sql_add a b =
     (if int64 a \<and> int64 b \<and> int64 (a + b) then a + b
      else round_double (round_double a + round_double b))"

text \<open>
  The mapped class, lines 13 to 32. Every column but the primary key is nullable, so each
  attribute is an option (\<open>None\<close> is Python's None and SQL's NULL). The primary key is
  \<open>None\<close> on an object that was constructed without one and an integer in every row of
  the table: the record is polymorphic in the type of \<open>id\<close> (named \<open>id_col\<close> here),
  \<open>int option Student\<close> being an object built by the constructor and \<open>int Student\<close> a
  row, or an object loaded from a row. An object built by the constructor holds Python
  integers, without bound. A row holds in an integer column a 64-bit integer or, after an
  arithmetic overflow, a floating-point number (a REAL, a Python float once loaded), which
  has no fractional part; the model keeps the number, and a number outside the 64 bits is
  the floating-point one.
\<close>

record 'i Student =
  id_col :: 'i
  name :: "string option"
  email :: "string option"
  grade :: "int option"
  birthday :: "datetime option"
  enrolled_date :: "datetime option"

text \<open>The exceptions that the calls of the script can raise.\<close>

datatype error =
    UnmappedInstanceError   \<comment> \<open>\<open>Session.delete\<close> of a value that is no mapped object\<close>
  | InvalidRequestError     \<comment> \<open>\<open>Session.delete\<close> of an object that was never persisted\<close>
  | IntegrityError          \<comment> \<open>INSERT of a primary key that is in the table\<close>
  | OperationalError        \<comment> \<open>an error of the database: integer overflow in SUM, no id found\<close>
  | OverflowError           \<comment> \<open>a Python integer beyond 64 bits as a parameter of a statement\<close>
  | TypeError               \<comment> \<open>\<open>None + 1\<close> in Python\<close>

text \<open>
  What \<open>Session.delete\<close> can be handed: Python's None (what \<open>first()\<close> gives on an empty
  result), an object built by the constructor and never saved through the session, or an
  object that a query of the session loaded.
\<close>

datatype py_object =
    NoneType
  | Transient "int option Student"
  | Persistent "int Student"

subsection \<open>The session\<close>

text \<open>
  \<open>default_enrolled_date\<close> is the default of the column \<open>enrolled_date\<close>: line 25 passes
  \<open>default=datetime.now()\<close>, the value of the call, so the column holds the one datetime
  that the clock showed when the class body ran. \<open>rows\<close> is the table \<open>students\<close> as the
  statements of the session's transaction see it, in the order of the primary key (the
  order of the table's b-tree, in which a query with no ORDER BY reads it). \<open>committed\<close>
  is the table as the last commit left it.
\<close>

record session =
  default_enrolled_date :: datetime
  rows :: "int Student list"
  committed :: "int Student list"

text \<open>Lines 11 to 44: the class body runs at \<open>now\<close>, the table is created empty.\<close>

definition create_session :: "datetime \<Rightarrow> session" where
  "create_session now = \<lparr>default_enrolled_date = now, rows = [], committed = []\<rparr>"

definition commit :: "session \<Rightarrow> session" where
  "commit s = s\<lparr>committed := rows s\<rparr>"

subsection \<open>INSERT\<close>

text \<open>
  The column \<open>id\<close> is an INTEGER primary key, SQLite's rowid, declared without
  AUTOINCREMENT: a row inserted with no id gets 1 in an empty table and otherwise one more
  than the largest id in the table, which is the id of the last entry of the b-tree. When
  the largest id is the largest 64-bit integer, the database draws ids at random until
  one is not in the table, and gives up after some draws. The draw is not a function of
  the program: \<open>random_rowid\<close> is some id that is not in the table, or None for a
  search that gave up, and nothing more is known of it.
\<close>

definition max_rowid :: int where
  "max_rowid = 2 ^ 63 - 1"

definition random_rowid :: "int list \<Rightarrow> int option" where
  "random_rowid ids =
     (SOME c. case c of None \<Rightarrow> True | Some k \<Rightarrow> k \<notin> set ids \<and> int64 k)"

definition next_rowid :: "int Student list \<Rightarrow> int option" where
  "next_rowid rs =
     (if rs = [] then Some 1
      else if id_col (last rs) < max_rowid then Some (id_col (last rs) + 1)
      else random_rowid (map id_col rs))"

fun insert_row :: "int Student \<Rightarrow> int Student list \<Rightarrow> int Student list" where
  "insert_row r [] = [r]"
| "insert_row r (x # xs) =
     (if id_col r < id_col x then r # x # xs else x # insert_row r xs)"

text \<open>
  One INSERT. The id and the grade are parameters of the statement: one beyond 64 bits
  raises OverflowError before the statement runs. The id is the object's own, refused
  when it is in the table, or the next rowid; \<open>enrolled_date\<close> is the object's own or
  the default of the column.
\<close>

definition insert_object :: "datetime \<Rightarrow> int option Student \<Rightarrow> int Student list
    \<Rightarrow> error + int Student list" where
  "insert_object dflt ob rs =
     (let ed = (case enrolled_date ob of None \<Rightarrow> Some dflt | Some d \<Rightarrow> Some d);
          row = (\<lambda>k. \<lparr>id_col = k, name = name ob, email = email ob, grade = grade ob,
                       birthday = birthday ob, enrolled_date = ed\<rparr>)
      in if bindable (id_col ob) \<and> bindable (grade ob) then
           (case id_col ob of
              None \<Rightarrow>
                (case next_rowid rs of
                   None \<Rightarrow> Inl OperationalError
                 | Some k \<Rightarrow> Inr (insert_row (row k) rs))
            | Some k \<Rightarrow>
                if k \<in> set (map id_col rs) then Inl IntegrityError
                else Inr (insert_row (row k) rs))
         else Inl OverflowError)"

fun insert_objects :: "datetime \<Rightarrow> int option Student list \<Rightarrow> int Student list
    \<Rightarrow> error + int Student list" where
  "insert_objects dflt [] rs = Inr rs"
| "insert_objects dflt (ob # obs) rs =
     (case insert_object dflt ob rs of
        Inl e \<Rightarrow> Inl e
      | Inr rs' \<Rightarrow> insert_objects dflt obs rs')"

text \<open>Line 83, \<open>session.bulk_save_objects(objects)\<close>: the rows are inserted at once, in
  the order given.\<close>

definition bulk_save_objects :: "int option Student list \<Rightarrow> session \<Rightarrow> error + session" where
  "bulk_save_objects obs s =
     (case insert_objects (default_enrolled_date s) obs (rows s) of
        Inl e \<Rightarrow> Inl e
      | Inr rs \<Rightarrow> Inr (s\<lparr>rows := rs\<rparr>))"

subsection \<open>Queries\<close>

text \<open>
  \<open>session.query(Student)\<close> with the criteria of \<open>filter\<close>: a query is its WHERE clause, a
  predicate on rows; \<open>filter\<close> adds a criterion by conjunction. A comparison with NULL is
  not true, so \<open>Student.name == v\<close> holds of a row only when its name is the string \<open>v\<close>.
\<close>

type_synonym query = "int Student \<Rightarrow> bool"

definition session_query :: query where
  "session_query = (\<lambda>r. True)"

definition query_filter :: "query \<Rightarrow> (int Student \<Rightarrow> bool) \<Rightarrow> query" where
  "query_filter q crit = (\<lambda>r. q r \<and> crit r)"

definition name_eq :: "string \<Rightarrow> int Student \<Rightarrow> bool" where
  "name_eq v r = (name r = Some v)"

definition query_all :: "query \<Rightarrow> session \<Rightarrow> int Student list" where
  "query_all q s = filter q (rows s)"

text \<open>\<open>first()\<close>: the first row of the result, or None when there is none.\<close>

fun first :: "'a list \<Rightarrow> 'a option" where
  "first [] = None"
| "first (x # xs) = Some x"

definition query_first :: "query \<Rightarrow> session \<Rightarrow> int Student option" where
  "query_first q s = first (query_all q s)"

text \<open>
  The aggregates of lines 118 and 121. COUNT counts the values that are not NULL, and an
  id never is. SUM adds the values that are not NULL, in the order of the table, starting
  from NULL: it is NULL when there is no such value. While all values are integers the
  sum is an integer, and the query raises the database's integer overflow error when a
  running sum leaves the 64 bits; with a floating-point value among them the sum is a
  floating-point number, which the model does not compute. A query of an aggregate has
  one row, which \<open>first()\<close> returns.
\<close>

datatype sql_value = SqlNull | SqlInteger int | SqlReal

definition func_count :: "'a list \<Rightarrow> int" where
  "func_count vs = int (length vs)"

fun sum_step :: "int \<Rightarrow> error + sql_value \<Rightarrow> error + sql_value" where
  "sum_step v (Inl e) = Inl e"
| "sum_step v (Inr SqlNull) = Inr (SqlInteger v)"
| "sum_step v (Inr (SqlInteger a)) =
     (if int64 (a + v) then Inr (SqlInteger (a + v)) else Inl OperationalError)"
| "sum_step v (Inr SqlReal) = Inr SqlReal"

definition func_sum :: "int option list \<Rightarrow> error + sql_value" where
  "func_sum vs =
     (if list_all int64 (List.map_filter (\<lambda>v. v) vs)
      then fold sum_step (List.map_filter (\<lambda>v. v) vs) (Inr SqlNull)
      else Inr SqlReal)"

definition student_count :: "session \<Rightarrow> int option" where
  "student_count s = first [func_count (map id_col (rows s))]"

definition student_total_grade :: "session \<Rightarrow> error + sql_value option" where
  "student_total_grade s =
     (case func_sum (map grade (rows s)) of
        Inl e \<Rightarrow> Inl e
      | Inr v \<Rightarrow> Inr (first [v]))"

subsection \<open>UPDATE\<close>

text \<open>
  Lines 134 to 136: the loop loads every row as an object and runs
  \<open>student.grade += 1\<close> on it, which raises TypeError on a grade that is None, adds 1 to
  a Python integer without bound, and adds 1 to a float in floating point. The commit
  then flushes each changed object as an UPDATE of its grade by primary key, with the
  grade as a parameter: a Python integer that the increment took beyond 64 bits raises
  OverflowError there, after the loop has run.
\<close>

definition grade_incr :: "int Student \<Rightarrow> error + int Student" where
  "grade_incr ob =
     (case grade ob of
        None \<Rightarrow> Inl TypeError
      | Some g \<Rightarrow>
          Inr (ob\<lparr>grade := Some (if int64 g then g + 1 else round_double (g + 1))\<rparr>))"

definition unbindable_incr :: "int Student \<Rightarrow> bool" where
  "unbindable_incr r =
     (case grade r of None \<Rightarrow> False | Some g \<Rightarrow> int64 g \<and> \<not> int64 (g + 1))"

fun for_each :: "('a \<Rightarrow> error + 'a) \<Rightarrow> 'a list \<Rightarrow> error + 'a list" where
  "for_each f [] = Inr []"
| "for_each f (x # xs) =
     (case f x of
        Inl e \<Rightarrow> Inl e
      | Inr y \<Rightarrow> (case for_each f xs of Inl e \<Rightarrow> Inl e | Inr ys \<Rightarrow> Inr (y # ys)))"

definition update_row :: "int Student \<Rightarrow> int Student list \<Rightarrow> int Student list" where
  "update_row ob rs =
     map (\<lambda>r. if id_col r = id_col ob then r\<lparr>grade := grade ob\<rparr> else r) rs"

definition flush :: "int Student list \<Rightarrow> session \<Rightarrow> session" where
  "flush obs s = s\<lparr>rows := fold update_row obs (rows s)\<rparr>"

definition update_objects :: "session \<Rightarrow> error + session" where
  "update_objects s =
     (case for_each grade_incr (query_all session_query s) of
        Inl e \<Rightarrow> Inl e
      | Inr obs \<Rightarrow>
          if list_ex unbindable_incr (query_all session_query s) then Inl OverflowError
          else Inr (commit (flush obs s)))"

text \<open>
  Line 141, \<open>query.update({Student.grade: Student.grade + 1})\<close>: one UPDATE that sets the
  grade of every row of the query to the value of an expression on the row, and returns
  the number of rows matched. In SQL, NULL + 1 is NULL, and an integer sum that leaves the
  64 bits is computed in floating point and stored as a REAL. The number \<open>n\<close> is a
  parameter of the statement, a 64-bit integer; the script passes 1. The script does not
  commit the update.
\<close>

definition grade_plus :: "int \<Rightarrow> int Student \<Rightarrow> int option" where
  "grade_plus n r = map_option (\<lambda>g. sql_add g n) (grade r)"

definition query_update :: "query \<Rightarrow> (int Student \<Rightarrow> int option) \<Rightarrow> session
    \<Rightarrow> int \<times> session" where
  "query_update q v s =
     (int (length (filter q (rows s))),
      s\<lparr>rows := map (\<lambda>r. if q r then r\<lparr>grade := v r\<rparr> else r) (rows s)\<rparr>)"

subsection \<open>DELETE\<close>

text \<open>
  Line 163, \<open>query.delete()\<close>: one DELETE with the WHERE clause of the query; it returns
  the number of rows matched.
\<close>

definition query_delete :: "query \<Rightarrow> session \<Rightarrow> int \<times> session" where
  "query_delete q s =
     (int (length (filter q (rows s))), s\<lparr>rows := filter (\<lambda>r. \<not> q r) (rows s)\<rparr>)"

text \<open>
  Line 152, \<open>session.delete(instance)\<close>. The session looks up the state that the mapper
  attaches to an object: None has none, which raises UnmappedInstanceError; an object
  that was never persisted has no identity key, which raises InvalidRequestError; a
  loaded object is marked, and the next flush deletes the row of its primary key. The
  flush is that of the commit of line 153, and every query, update and delete of the
  session starts with one; the function is the call together with that flush. Only
  \<open>bulk_save_objects\<close> runs without a flush, so a bulk insert between the call and the
  next flush still finds the row in the table: the model does not follow that order of
  calls, which the script does not have.
\<close>

fun session_delete :: "py_object \<Rightarrow> session \<Rightarrow> error + session" where
  "session_delete NoneType s = Inl UnmappedInstanceError"
| "session_delete (Transient ob) s = Inl InvalidRequestError"
| "session_delete (Persistent ob) s =
     Inr (s\<lparr>rows := filter (\<lambda>r. id_col r \<noteq> id_col ob) (rows s)\<rparr>)"

text \<open>The value of a variable that holds the result of \<open>first()\<close>.\<close>

fun as_py_object :: "int Student option \<Rightarrow> py_object" where
  "as_py_object None = NoneType"
| "as_py_object (Some ob) = Persistent ob"

subsection \<open>The script\<close>

text \<open>Lines 48 to 75: the three objects, none with an id or an \<open>enrolled_date\<close>.\<close>

definition student1 :: "int option Student" where
  "student1 = \<lparr>id_col = None, name = Some ''Alice'', email = Some ''alice@school.com'',
     grade = Some 9, birthday = Some (Datetime 1996 8 27 0 0 0 0), enrolled_date = None\<rparr>"

definition student2 :: "int option Student" where
  "student2 = \<lparr>id_col = None, name = Some ''Alan Turing'',
     email = Some ''alan.turing@sherborne.edu'',
     grade = Some 11, birthday = Some (Datetime 1912 6 23 0 0 0 0), enrolled_date = None\<rparr>"

definition student3 :: "int option Student" where
  "student3 = \<lparr>id_col = None, name = Some ''Mark Tylor'',
     email = Some ''mark.tylor@moringaschool.com'',
     grade = Some 7, birthday = Some (Datetime 2000 10 23 0 0 0 0), enrolled_date = None\<rparr>"

text \<open>Lines 83 and 84.\<close>

definition add_students :: "session \<Rightarrow> error + session" where
  "add_students s =
     (case bulk_save_objects [student1, student2] s of
        Inl e \<Rightarrow> Inl e
      | Inr s' \<Rightarrow> Inr (commit s'))"

text \<open>Line 141.\<close>

definition update_query :: "session \<Rightarrow> error + session" where
  "update_query s = Inr (snd (query_update session_query (grade_plus 1) s))"

text \<open>Lines 148 and 162: the query that both delete sections build.\<close>

definition mark_query :: query where
  "mark_query = query_filter session_query (name_eq ''Mark Tylor'')"

text \<open>Lines 150 to 153: \<open>mark = query.first()\<close>, \<open>session.delete(mark)\<close>, \<open>session.commit()\<close>.\<close>

definition delete_object :: "session \<Rightarrow> error + session" where
  "delete_object s =
     (case session_delete (as_py_object (query_first mark_query s)) s of
        Inl e \<Rightarrow> Inl e
      | Inr s' \<Rightarrow> Inr (commit s'))"

text \<open>Line 163.\<close>

definition delete_query :: "session \<Rightarrow> error + session" where
  "delete_query s = Inr (snd (query_delete mark_query s))"

text \<open>
  A run of statements: the session after each statement that returned, and the exception
  that ended the run, if one did. An exception is caught nowhere in the script, so the
  statements after the one that raises do not run.
\<close>

fun run :: "(session \<Rightarrow> error + session) list \<Rightarrow> session \<Rightarrow> session list \<times> error option" where
  "run [] s = ([], None)"
| "run (f # fs) s =
     (case f s of
        Inl e \<Rightarrow> ([], Some e)
      | Inr s' \<Rightarrow> (case run fs s' of (tr, r) \<Rightarrow> (s' # tr, r)))"

text \<open>
  The script, as the statements that write: the class body runs at \<open>now\<close>; the statements
  between them (lines 88 to 126, and the prints) only read the session, and what they
  read is a query on the session after the statement before them.
\<close>

definition script :: "datetime \<Rightarrow> session list \<times> error option" where
  "script now =
     run [add_students, update_objects, update_query, delete_object, delete_query]
       (create_session now)"

subsection \<open>Sessions of the examples\<close>

text \<open>A reading of the clock, for the examples: 4 September 2023, 8:30.\<close>

definition example_now :: datetime where
  "example_now = Datetime 2023 9 4 8 30 0 0"

text \<open>
  The session that lines 83 and 84 leave when the class body ran at \<open>now\<close>: the rows of
  \<open>student1\<close> and \<open>student2\<close>, committed (lemma \<open>add_students_saved\<close> below).
\<close>

definition saved_rows :: "datetime \<Rightarrow> int Student list" where
  "saved_rows now =
     [\<lparr>id_col = 1, name = Some ''Alice'', email = Some ''alice@school.com'',
        grade = Some 9, birthday = Some (Datetime 1996 8 27 0 0 0 0),
        enrolled_date = Some now\<rparr>,
      \<lparr>id_col = 2, name = Some ''Alan Turing'',
        email = Some ''alan.turing@sherborne.edu'',
        grade = Some 11, birthday = Some (Datetime 1912 6 23 0 0 0 0),
        enrolled_date = Some now\<rparr>]"

definition saved :: "datetime \<Rightarrow> session" where
  "saved now =
     \<lparr>default_enrolled_date = now, rows = saved_rows now, committed = saved_rows now\<rparr>"

subsection \<open>What the script prints, and inserts at two times\<close>

text \<open>
  Lines 29 to 32, \<open>__repr__\<close>: the string shows the id, the name and the grade of the
  object; the model keeps the three values.
\<close>

definition repr :: "'i Student \<Rightarrow> 'i \<times> string option \<times> int option" where
  "repr ob = (id_col ob, name ob, grade ob)"

text \<open>Lines 137 and 142: \<open>[(student.name, student.grade) for student in session.query(Student)]\<close>.\<close>

definition names_and_grades :: "session \<Rightarrow> (string option \<times> int option) list" where
  "names_and_grades s =
     map (\<lambda>student. (name student, grade student)) (query_all session_query s)"

text \<open>
  Two calls of \<open>bulk_save_objects\<close>, one after the other: the second runs later than the
  first, and neither reads the clock.
\<close>

definition insert_twice :: "int option Student \<Rightarrow> int option Student \<Rightarrow> session
    \<Rightarrow> error + session" where
  "insert_twice ob1 ob2 s =
     (case bulk_save_objects [ob1] s of
        Inl e \<Rightarrow> Inl e
      | Inr s' \<Rightarrow> bulk_save_objects [ob2] s')"

text \<open>Line 88, \<open>students = session.query(Student).all()\<close>.\<close>

definition students :: "session \<Rightarrow> int Student list" where
  "students s = query_all session_query s"

text \<open>The query for the name of \<open>student2\<close>, built as lines 148 and 162 build theirs.\<close>

definition alan_query :: query where
  "alan_query = query_filter session_query (name_eq ''Alan Turing'')"

subsection \<open>The sessions that the calls can reach\<close>




text \<open>The running sums of a list of integers, from \<open>a\<close> on, all stay in the 64 bits.\<close>

fun sums_fit :: "int \<Rightarrow> int list \<Rightarrow> bool" where
  "sums_fit a [] = True"
| "sums_fit a (g # gs) = (int64 (a + g) \<and> sums_fit (a + g) gs)"

text \<open>
  Two objects with grades at the end of the 64 bits, for the examples: the largest
  64-bit integer and 1.
\<close>

definition student_top :: "int option Student" where
  "student_top = student1\<lparr>grade := Some (2 ^ 63 - 1)\<rparr>"

definition student_one :: "int option Student" where
  "student_one = student2\<lparr>grade := Some 1\<rparr>"

section \<open>Properties\<close>

subsection \<open>Evaluation\<close>

text \<open>
  The random id is not computed: an evaluation that reaches it stops there, and every
  other one runs.
\<close>

lemma random_rowid_code [code]:
  "random_rowid ids = Code.abort (STR ''random_rowid'') (\<lambda>_. random_rowid ids)"
  by simp

subsection \<open>The script's insert\<close>

lemma add_students_saved: "add_students (create_session now) = Inr (saved now)"
  by (simp add: add_students_def bulk_save_objects_def create_session_def insert_object_def
      next_rowid_def max_rowid_def bindable_def int64_def student1_def student2_def
      commit_def saved_def saved_rows_def)

subsection \<open>Aggregates\<close>

lemma fold_sum_step_Inl: "fold sum_step gs (Inl e) = Inl e"
  by (induction gs) simp_all

lemma fold_sum_step_Integer:
  "fold sum_step gs (Inr (SqlInteger a)) =
     (if sums_fit a gs then Inr (SqlInteger (a + sum_list gs)) else Inl OperationalError)"
proof (induction gs arbitrary: a)
  case Nil
  show ?case by simp
next
  case (Cons g gs)
  show ?case
  proof (cases "int64 (a + g)")
    case True
    then show ?thesis using Cons.IH [of "a + g"] by (simp add: add.assoc)
  next
    case False
    then show ?thesis by (simp add: fold_sum_step_Inl)
  qed
qed

lemma fold_sum_step_Null:
  "list_all int64 gs \<Longrightarrow>
   fold sum_step gs (Inr SqlNull) =
     (if gs = [] then Inr SqlNull
      else if sums_fit 0 gs then Inr (SqlInteger (sum_list gs)) else Inl OperationalError)"
  by (cases gs) (simp_all add: fold_sum_step_Integer)

lemma map_filter_map: "List.map_filter (\<lambda>v. v) (map f xs) = List.map_filter f xs"
  by (induction xs) (simp_all split: option.splits)

lemma func_sum_integers:
  "list_all int64 (List.map_filter f xs) \<Longrightarrow>
     func_sum (map f xs) =
       (if List.map_filter f xs = [] then Inr SqlNull
        else if sums_fit 0 (List.map_filter f xs)
          then Inr (SqlInteger (sum_list (List.map_filter f xs)))
          else Inl OperationalError)"
  by (simp add: func_sum_def fold_sum_step_Null map_filter_map)

text \<open>
  C5, as amended. In every state of the session whose grades are 64-bit integers or
  NULL, the sum query of line 121 returns one row whose value is the arithmetic sum of
  the grades of the records of the table, a NULL grade adding nothing, as long as the
  running sums, taken in the order of the table, stay in the 64 bits; when a running sum
  leaves them, the query raises the integer overflow error of the database. When there
  is no grade to add, and so when the table has no record, the value is None (SQL's
  NULL), one fixed value and no error. A commit changes neither the result nor the
  records: after it they are the committed ones.
\<close>

theorem total_grade_is_sum:
  "(list_all int64 (List.map_filter grade (rows s)) \<and> sums_fit 0 (List.map_filter grade (rows s))
      \<longrightarrow> student_total_grade s =
        Inr (Some (if List.map_filter grade (rows s) = [] then SqlNull
                   else SqlInteger (sum_list (List.map_filter grade (rows s))))))
   \<and> (list_all int64 (List.map_filter grade (rows s))
        \<and> \<not> sums_fit 0 (List.map_filter grade (rows s))
      \<longrightarrow> student_total_grade s = Inl OperationalError)
   \<and> (rows s = [] \<longrightarrow> student_total_grade s = Inr (Some SqlNull))
   \<and> student_total_grade (commit s) = student_total_grade s
   \<and> committed (commit s) = rows s"
proof -
  let ?gs = "List.map_filter grade (rows s)"
  have fit: "student_total_grade s =
      Inr (Some (if ?gs = [] then SqlNull else SqlInteger (sum_list ?gs)))"
    if "list_all int64 ?gs" "sums_fit 0 ?gs"
    using that by (simp add: student_total_grade_def func_sum_integers)
  have overflow: "student_total_grade s = Inl OperationalError"
    if "list_all int64 ?gs" "\<not> sums_fit 0 ?gs"
  proof -
    from that(2) have "?gs \<noteq> []" by auto
    with that show ?thesis by (simp add: student_total_grade_def func_sum_integers)
  qed
  have empty: "student_total_grade s = Inr (Some SqlNull)" if "rows s = []"
    using that by (simp add: student_total_grade_def func_sum_def)
  have "student_total_grade (commit s) = student_total_grade s"
    by (simp add: student_total_grade_def commit_def)
  moreover have "committed (commit s) = rows s"
    by (simp add: commit_def)
  ultimately show ?thesis using fit overflow empty by blast
qed

theorem total_grade_is_sum_witness:
  "student_total_grade (create_session example_now) = Inr (Some SqlNull)
   \<and> student_total_grade (saved example_now) = Inr (Some (SqlInteger 20))
   \<and> student_total_grade (commit (saved example_now)) = Inr (Some (SqlInteger 20))
   \<and> student_total_grade
        ((saved example_now)\<lparr>rows := map (\<lambda>r. r\<lparr>grade := Some (2 ^ 63 - 1)\<rparr>) (saved_rows example_now)\<rparr>)
       = Inl OperationalError"
proof -
  let ?top = "(saved example_now)\<lparr>rows :=
      map (\<lambda>r. r\<lparr>grade := Some (2 ^ 63 - 1)\<rparr>) (saved_rows example_now)\<rparr>"
  have a: "rows (create_session example_now) = []"
    by (simp add: create_session_def)
  have b: "List.map_filter grade (rows (saved example_now)) = [9, 11]"
    by (simp add: saved_def saved_rows_def)
  have c: "List.map_filter grade (rows ?top) = [2 ^ 63 - 1, 2 ^ 63 - 1]"
    by (simp add: saved_def saved_rows_def)
  from total_grade_is_sum [of "create_session example_now"] a
  have 1: "student_total_grade (create_session example_now) = Inr (Some SqlNull)"
    by simp
  from total_grade_is_sum [of "saved example_now"] b
  have 2: "student_total_grade (saved example_now) = Inr (Some (SqlInteger 20))"
    "student_total_grade (commit (saved example_now)) = Inr (Some (SqlInteger 20))"
    by (simp_all add: int64_def)
  from total_grade_is_sum [of ?top] c
  have 3: "student_total_grade ?top = Inl OperationalError"
    by (simp add: int64_def)
  from 1 2 3 show ?thesis by simp
qed

text \<open>
  C5 as stated fails: \<open>student_top\<close> and \<open>student_one\<close>, with the grades 2^63 - 1 and 1,
  are inserted and committed like any two students, and the sum query on that state
  raises the integer overflow error where the arithmetic sum is 2^63.
\<close>

theorem total_grade_overflows:
  "map_sum (\<lambda>e. e) (\<lambda>s. (List.map_filter grade (committed (commit s)), student_total_grade (commit s)))
     (bulk_save_objects [student_top, student_one] (create_session example_now))
   = Inr ([2 ^ 63 - 1, 1], Inl OperationalError)"
  by (simp add: bulk_save_objects_def create_session_def insert_object_def next_rowid_def
      max_rowid_def bindable_def int64_def student_top_def student_one_def student1_def
      student2_def commit_def student_total_grade_def func_sum_def)

subsection \<open>Queries that match nothing\<close>



subsection \<open>The run of the script\<close>

lemma update_objects_saved:
  "update_objects (saved now) =
     Inr \<lparr>default_enrolled_date = now,
          rows = map (\<lambda>r. r\<lparr>grade := map_option (\<lambda>g. g + 1) (grade r)\<rparr>) (saved_rows now),
          committed = map (\<lambda>r. r\<lparr>grade := map_option (\<lambda>g. g + 1) (grade r)\<rparr>) (saved_rows now)\<rparr>"
  by (simp add: update_objects_def query_all_def session_query_def saved_def saved_rows_def
      grade_incr_def unbindable_incr_def int64_def flush_def update_row_def commit_def)

lemma script_run:
  "script now =
    ([saved now,
      \<lparr>default_enrolled_date = now,
          rows = map (\<lambda>r. r\<lparr>grade := map_option (\<lambda>g. g + 1) (grade r)\<rparr>) (saved_rows now),
          committed = map (\<lambda>r. r\<lparr>grade := map_option (\<lambda>g. g + 1) (grade r)\<rparr>) (saved_rows now)\<rparr>,
      \<lparr>default_enrolled_date = now,
          rows = map (\<lambda>r. r\<lparr>grade := map_option (\<lambda>g. g + 2) (grade r)\<rparr>) (saved_rows now),
          committed = map (\<lambda>r. r\<lparr>grade := map_option (\<lambda>g. g + 1) (grade r)\<rparr>) (saved_rows now)\<rparr>],
     Some UnmappedInstanceError)"
  by (simp add: script_def add_students_saved update_objects_saved update_query_def
      query_update_def session_query_def grade_plus_def sql_add_def int64_def
      delete_object_def mark_query_def query_first_def query_all_def query_filter_def
      name_eq_def saved_rows_def)

lemma script_grades:
  "map names_and_grades (fst (script now)) =
     [[(Some ''Alice'', Some 9), (Some ''Alan Turing'', Some 11)],
      [(Some ''Alice'', Some 10), (Some ''Alan Turing'', Some 12)],
      [(Some ''Alice'', Some 11), (Some ''Alan Turing'', Some 13)]]"
  by (simp add: script_run names_and_grades_def query_all_def session_query_def saved_def saved_rows_def)

subsection \<open>Deleting what is not there\<close>




subsection \<open>The default of \<open>enrolled_date\<close>\<close>

text \<open>
  C2 fails on the code. The class body runs at \<open>now\<close>; \<open>student1\<close> is inserted by one call
  and \<open>student3\<close> by a later one, neither with an \<open>enrolled_date\<close>. Both rows get \<open>now\<close>,
  the time of the class body, whatever the times of the two calls: line 25 passes the
  value of \<open>datetime.now()\<close> where the function itself was meant.
\<close>

theorem enrolled_date_shared:
  "map_sum (\<lambda>e. e) (\<lambda>s. map enrolled_date (rows s))
     (insert_twice student1 student3 (create_session now)) = Inr [Some now, Some now]"
  by (simp add: insert_twice_def bulk_save_objects_def insert_object_def next_rowid_def
      max_rowid_def bindable_def int64_def create_session_def student1_def student3_def)

subsection \<open>Inserts and the commit\<close>









subsection \<open>The ids of the rows\<close>






















subsection \<open>The two updates\<close>

text \<open>
  C7. The script applies two updates to its records, one after the other: the loop of
  lines 134 to 136 adds 1 to every grade, and the bulk update of line 141 adds 1 again.
  For every reading of the clock, the lists of names and grades after the insert, after
  the loop and after the bulk update are Alice 9, 10, 11 and Alan Turing 11, 12, 13:
  after the update section every grade is 2 above the inserted one, not 1.
\<close>

theorem update_section_adds_two:
  "map names_and_grades (fst (script now)) =
     [[(Some ''Alice'', Some 9), (Some ''Alan Turing'', Some 11)],
      [(Some ''Alice'', Some 10), (Some ''Alan Turing'', Some 12)],
      [(Some ''Alice'', Some 11), (Some ''Alan Turing'', Some 13)]]
   \<and> map (\<lambda>student. (name student, grade student)) [student1, student2] =
     [(Some ''Alice'', Some 9), (Some ''Alan Turing'', Some 11)]"
  by (simp add: script_grades student1_def student2_def)

subsection \<open>The scenario and the script\<close>

lemma script_error: "snd (script now) = Some UnmappedInstanceError"
  by (simp add: script_run)

lemma script_counts: "map student_count (fst (script now)) = [Some 2, Some 2, Some 2]"
  by (simp add: script_run student_count_def func_count_def saved_def saved_rows_def)

text \<open>
  C3, as amended. From the empty table, the insert of Alice with grade 9 and Alan Turing
  with grade 11 and the commit give the count 2 and the sum of grades 20; one increment
  of all grades by 1, the bulk update, gives the grades 10 and 12; the delete by the
  criterion that the name is Alan Turing then removes one record and leaves the count 1
  and Alice with grade 10 as the only record.
\<close>

theorem scenario_single_increment:
  "add_students (create_session now) = Inr (saved now)
   \<and> rows (create_session now) = []
   \<and> student_count (saved now) = Some 2
   \<and> student_total_grade (saved now) = Inr (Some (SqlInteger 20))
   \<and> names_and_grades (snd (query_update session_query (grade_plus 1) (saved now)))
       = [(Some ''Alice'', Some 10), (Some ''Alan Turing'', Some 12)]
   \<and> fst (query_delete alan_query (snd (query_update session_query (grade_plus 1) (saved now))))
       = 1
   \<and> student_count
        (snd (query_delete alan_query (snd (query_update session_query (grade_plus 1) (saved now)))))
       = Some 1
   \<and> map repr (students
        (snd (query_delete alan_query (snd (query_update session_query (grade_plus 1) (saved now))))))
       = [(1, Some ''Alice'', Some 10)]"
proof -
  have "rows (create_session now) = []"
    by (simp add: create_session_def)
  moreover have "student_count (saved now) = Some 2"
    by (simp add: student_count_def func_count_def saved_def saved_rows_def)
  moreover have "student_total_grade (saved now) = Inr (Some (SqlInteger 20))"
    by (simp add: student_total_grade_def func_sum_def int64_def saved_def saved_rows_def)
  ultimately show ?thesis
    by (simp add: add_students_saved)
      (simp add: student_count_def func_count_def names_and_grades_def query_all_def
        session_query_def query_update_def grade_plus_def sql_add_def int64_def
        query_delete_def alan_query_def
        query_filter_def name_eq_def students_def repr_def saved_def saved_rows_def)
qed

text \<open>
  C3 as stated fails: the sequence of the script is another one. The script increments
  twice, so its grades end as 11 and 13; it deletes nothing, since its criterion is the
  name Mark Tylor; the count is 2 in every state of its run, which ends in
  UnmappedInstanceError; and its last state is not Alice alone with grade 10.
\<close>

theorem script_is_another_sequence:
  "map names_and_grades (fst (script example_now)) =
     [[(Some ''Alice'', Some 9), (Some ''Alan Turing'', Some 11)],
      [(Some ''Alice'', Some 10), (Some ''Alan Turing'', Some 12)],
      [(Some ''Alice'', Some 11), (Some ''Alan Turing'', Some 13)]]
   \<and> map student_count (fst (script example_now)) = [Some 2, Some 2, Some 2]
   \<and> snd (script example_now) = Some UnmappedInstanceError
   \<and> names_and_grades (last (fst (script example_now))) \<noteq> [(Some ''Alice'', Some 10)]"
proof -
  have "names_and_grades (last (fst (script example_now)))
      = [(Some ''Alice'', Some 11), (Some ''Alan Turing'', Some 13)]"
    by (simp add: script_run names_and_grades_def query_all_def session_query_def saved_rows_def)
  then show ?thesis
    by (simp add: script_grades script_counts script_error)
qed

text \<open>
  C6. The only insert of the script is that of \<open>student1\<close> and \<open>student2\<close>
  (\<open>add_students\<close>); \<open>student3\<close> is never added. In every state of the run, from the
  first commit on, the committed table and the table of the transaction hold exactly
  the two records Alice and Alan Turing, the query for Mark Tylor returns None, and the
  delete by that query would remove 0 rows. The run ends in the first delete section,
  where \<open>session.delete\<close> raises on the None it is handed and removes nothing; the
  second delete section, run on the last state, leaves it as it is.
\<close>

theorem script_keeps_two_records:
  "map (map name \<circ> committed) (fst (script now)) =
     [[Some ''Alice'', Some ''Alan Turing''],
      [Some ''Alice'', Some ''Alan Turing''],
      [Some ''Alice'', Some ''Alan Turing'']]
   \<and> map (map name \<circ> rows) (fst (script now)) =
     [[Some ''Alice'', Some ''Alan Turing''],
      [Some ''Alice'', Some ''Alan Turing''],
      [Some ''Alice'', Some ''Alan Turing'']]
   \<and> map (query_first mark_query) (fst (script now)) = [None, None, None]
   \<and> map (fst \<circ> query_delete mark_query) (fst (script now)) = [0, 0, 0]
   \<and> snd (script now) = Some UnmappedInstanceError
   \<and> delete_object (last (fst (script now))) = Inl UnmappedInstanceError
   \<and> delete_query (last (fst (script now))) = Inr (last (fst (script now)))"
  by (simp add: script_run mark_query_def query_first_def query_all_def query_filter_def
      session_query_def name_eq_def query_delete_def delete_object_def delete_query_def
      saved_def saved_rows_def)

end
